theory Spec2Isabelle
  imports Main "HOL-Library.Char_ord" "HOL-Library.List_Lexorder"
begin

text \<open>
  The backend of the component aggregator: the crawl trigger, the component service, the
  search service with its route, and the tables they work on. Each operation is a
  function from the state of the database (and what the call reads from outside: clock,
  fresh ids) to its result and the new state; an exception is a result \<open>Inl error\<close>.
\<close>

section \<open>Data model: the Drizzle schema\<close>

text \<open>
  The tables of \<^verbatim>\<open>backend/src/db/schema\<close> as records, one list of rows per table;
  the order of a list is the order in which a sequential scan of the table returns its
  rows, which is the order a query without \<^verbatim>\<open>ORDER BY\<close> yields them in.
  A uuid is the string the code passes around; a timestamp is a number of milliseconds,
  as \<^verbatim>\<open>Date.now()\<close> gives it. A JavaScript string is a \<open>string\<close>: one \<open>char\<close>
  for one code unit, so \<open>length\<close> is the \<^verbatim>\<open>.length\<close> zod compares (the 8-bit
  range of characters only). Columns that no modelled operation reads (urls, source
  code, the other jsonb columns, licence, author, version) are left out of the records.
\<close>

type_synonym uuid = string
type_synonym timestamp = int

record source_website =
  sw_id :: uuid
  sw_name :: string
  sw_slug :: string
  sw_isActive :: bool

record component_type =
  ct_id :: uuid
  ct_name :: string
  ct_slug :: string

record component =
  c_id :: uuid
  c_sourceWebsiteId :: uuid
  c_componentTypeId :: uuid
  c_name :: string
  c_slug :: string
  c_description :: "string option"
  c_tags :: "string list"
  c_contentHash :: string
  c_isActive :: bool
  c_viewCount :: int
  c_createdAt :: timestamp
  c_updatedAt :: timestamp

datatype crawl_job_status = Pending | Running | Success | Failed | Cancelled

record crawl_job =
  cj_id :: uuid
  cj_sourceWebsiteId :: uuid
  cj_status :: crawl_job_status
  cj_startedAt :: "timestamp option"
  cj_completedAt :: "timestamp option"
  cj_componentsFound :: int
  cj_componentsUpdated :: int
  cj_componentsAdded :: int
  cj_componentsRemoved :: int
  cj_errorMessage :: "string option"
  cj_createdAt :: timestamp

record search_filter =
  sf_source :: "string option"
  sf_type :: "string option"

record search_log =
  sl_id :: uuid
  sl_query :: string
  sl_filters :: search_filter
  sl_resultsCount :: nat
  sl_sessionId :: string
  sl_responseTime :: int
  sl_createdAt :: timestamp

text \<open>
  The database: its tables, and whether a query reaches it at all. Every service
  method runs its queries inside \<^verbatim>\<open>try\<close>; a query that fails throws there.
\<close>

record db =
  reachable :: bool
  sourceWebsites :: "source_website list"
  componentTypes :: "component_type list"
  components :: "component list"
  crawlJobs :: "crawl_job list"
  searchLogs :: "search_log list"

text \<open>
  What a route passes to \<^verbatim>\<open>next\<close>: an \<^verbatim>\<open>AppError(statusCode, message)\<close>, a
  \<^verbatim>\<open>ZodError\<close> of a failed validation, or an error the database driver threw.
  \<^verbatim>\<open>errorHandler\<close> turns it into the status and message of the response.
\<close>

datatype error = AppError nat string | ZodError | DatabaseError

fun errorHandler :: "error \<Rightarrow> nat \<times> string" where
  "errorHandler (AppError statusCode message) = (statusCode, message)"
| "errorHandler ZodError = (400, ''Validation error'')"
| "errorHandler DatabaseError = (500, ''Internal server error'')"

section \<open>SQL text matching\<close>

text \<open>
  \<^verbatim>\<open>LIKE\<close> as PostgreSQL matches it: \<^verbatim>\<open>%\<close> stands for any run of characters,
  \<^verbatim>\<open>_\<close> for any one character, and a backslash makes the next pattern character
  literal. A pattern that ends in a lone backslash is an error in PostgreSQL; the
  patterns built below all end in \<^verbatim>\<open>%\<close>, so that case is never reached and is
  given as no match.
\<close>

fun like_match :: "string \<Rightarrow> string \<Rightarrow> bool" where
  "like_match [] t = (t = [])"
| "like_match (p # ps) t =
     (if p = CHR 0x5C then
        (case ps of
           [] \<Rightarrow> False
         | q # qs \<Rightarrow> (case t of [] \<Rightarrow> False | c # cs \<Rightarrow> c = q \<and> like_match qs cs))
      else if p = CHR ''%'' then
        (like_match ps t \<or> (case t of [] \<Rightarrow> False | c # cs \<Rightarrow> like_match (p # ps) cs))
      else if p = CHR ''_'' then
        (case t of [] \<Rightarrow> False | c # cs \<Rightarrow> like_match ps cs)
      else
        (case t of [] \<Rightarrow> False | c # cs \<Rightarrow> c = p \<and> like_match ps cs))"

text \<open>\<^verbatim>\<open>ILIKE\<close> folds case on both sides first (the ASCII letters here).\<close>

definition lower_char :: "char \<Rightarrow> char" where
  "lower_char c =
     (let n = (of_char c :: nat) in if 65 \<le> n \<and> n \<le> 90 then char_of (n + 32) else c)"

definition ilike :: "string \<Rightarrow> string \<Rightarrow> bool" where
  "ilike t p = like_match (map lower_char p) (map lower_char t)"

text \<open>A query is plain when it has none of the three characters special to \<^verbatim>\<open>LIKE\<close>.\<close>

definition plain :: "string \<Rightarrow> bool" where
  "plain q = list_all (\<lambda>c. c \<noteq> CHR ''%'' \<and> c \<noteq> CHR ''_'' \<and> c \<noteq> CHR 0x5C) q"

text \<open>
  \<^verbatim>\<open>tags::text\<close>: the text PostgreSQL prints for a jsonb array of strings, the
  elements in double quotes with JSON escapes, separated by a comma and a space.
\<close>

definition hex_digit :: "nat \<Rightarrow> char" where
  "hex_digit n = (if n < 10 then char_of (48 + n) else char_of (87 + n))"

definition json_escape_char :: "char \<Rightarrow> string" where
  "json_escape_char c =
     (let n = (of_char c :: nat) in
      if c = CHR 0x22 then [CHR 0x5C, CHR 0x22]
      else if c = CHR 0x5C then [CHR 0x5C, CHR 0x5C]
      else if n = 8 then [CHR 0x5C, CHR ''b'']
      else if n = 12 then [CHR 0x5C, CHR ''f'']
      else if n = 10 then [CHR 0x5C, CHR ''n'']
      else if n = 13 then [CHR 0x5C, CHR ''r'']
      else if n = 9 then [CHR 0x5C, CHR ''t'']
      else if n < 32 then [CHR 0x5C, CHR ''u'', CHR ''0'', CHR ''0'', hex_digit (n div 16), hex_digit (n mod 16)]
      else [c])"

definition json_string :: "string \<Rightarrow> string" where
  "json_string s = [CHR 0x22] @ concat (map json_escape_char s) @ [CHR 0x22]"

fun join_with :: "string \<Rightarrow> string list \<Rightarrow> string" where
  "join_with sep [] = []"
| "join_with sep [x] = x"
| "join_with sep (x # y # ys) = x @ sep @ join_with sep (y # ys)"

definition tags_text :: "string list \<Rightarrow> string" where
  "tags_text ts = ''['' @ join_with '', '' (map json_string ts) @ '']''"

text \<open>
  A \<^verbatim>\<open>varchar(n)\<close> column takes a value of at most \<open>n\<close> characters; a longer one
  is an error unless the excess is spaces only, which are cut off.
\<close>

definition varchar :: "nat \<Rightarrow> string \<Rightarrow> string option" where
  "varchar n s = (if list_all (\<lambda>c. c = CHR '' '') (drop n s) then Some (take n s) else None)"

section \<open>SearchService\<close>

text \<open>
  One row of the search query: the component (its columns are spread into the result
  object by the code) with the two left-joined rows, each \<open>None\<close> where the join found no
  partner.
\<close>

record joined_ref =
  ref_id :: uuid
  ref_name :: string
  ref_slug :: string

record search_item =
  item_component :: component
  item_sourceWebsite :: "joined_ref option"
  item_componentType :: "joined_ref option"

record 'item search_result =
  results :: "'item list"
  total :: nat
  responseTime :: int
  suggestions :: "string list option"

text \<open>
  What a call reads from outside the database: the two readings of \<^verbatim>\<open>Date.now()\<close>,
  and the id and creation time the database gives the search-log row.
\<close>

record search_env =
  now_start :: timestamp
  now_end :: timestamp
  log_id :: uuid
  log_createdAt :: timestamp

definition source_id_by_slug :: "db \<Rightarrow> string \<Rightarrow> uuid option" where
  "source_id_by_slug d s = map_option sw_id (find (\<lambda>w. sw_slug w = s) (sourceWebsites d))"

definition type_id_by_slug :: "db \<Rightarrow> string \<Rightarrow> uuid option" where
  "type_id_by_slug d s = map_option ct_id (find (\<lambda>t. ct_slug t = s) (componentTypes d))"

text \<open>
  The conditions pushed for the two filters. A filter value is used when it is truthy
  (present and not the empty string); a slug that is found adds an equality on the id,
  a slug that is not found adds nothing.
\<close>

definition source_condition :: "db \<Rightarrow> string option \<Rightarrow> component \<Rightarrow> bool" where
  "source_condition d v c =
     (case v of
        None \<Rightarrow> True
      | Some s \<Rightarrow>
          if s = [] then True
          else (case source_id_by_slug d s of
                  Some i \<Rightarrow> c_sourceWebsiteId c = i
                | None \<Rightarrow> True))"

definition type_condition :: "db \<Rightarrow> string option \<Rightarrow> component \<Rightarrow> bool" where
  "type_condition d v c =
     (case v of
        None \<Rightarrow> True
      | Some s \<Rightarrow>
          if s = [] then True
          else (case type_id_by_slug d s of
                  Some i \<Rightarrow> c_componentTypeId c = i
                | None \<Rightarrow> True))"

text \<open>
  The text condition: \<^verbatim>\<open>ILIKE '%query%'\<close> on the name, the description (a null
  description makes its disjunct null, which selects nothing) and the text of the tags.
\<close>

definition searchConditions :: "string \<Rightarrow> component \<Rightarrow> bool" where
  "searchConditions query c =
     (let pat = ''%'' @ query @ ''%'' in
        ilike (c_name c) pat
      \<or> (case c_description c of None \<Rightarrow> False | Some de \<Rightarrow> ilike de pat)
      \<or> ilike (tags_text (c_tags c)) pat)"

definition search_where :: "db \<Rightarrow> string \<Rightarrow> search_filter \<Rightarrow> component \<Rightarrow> bool" where
  "search_where d query f c =
     (c_isActive c \<and> source_condition d (sf_source f) c \<and> type_condition d (sf_type f) c
      \<and> searchConditions query c)"

definition source_ref :: "source_website \<Rightarrow> joined_ref" where
  "source_ref w = \<lparr>ref_id = sw_id w, ref_name = sw_name w, ref_slug = sw_slug w\<rparr>"

definition type_ref :: "component_type \<Rightarrow> joined_ref" where
  "type_ref t = \<lparr>ref_id = ct_id t, ref_name = ct_name t, ref_slug = ct_slug t\<rparr>"

text \<open>\<^verbatim>\<open>LEFT JOIN\<close>: every partner row, or one null where there is none.\<close>

definition left_join :: "'a list \<Rightarrow> 'a option list" where
  "left_join partners = (case partners of [] \<Rightarrow> [None] | _ \<Rightarrow> map Some partners)"

definition joined_rows :: "db \<Rightarrow> component \<Rightarrow> search_item list" where
  "joined_rows d c =
     concat (map (\<lambda>w. map (\<lambda>t. \<lparr>item_component = c, item_sourceWebsite = w, item_componentType = t\<rparr>)
                    (left_join (map type_ref (filter (\<lambda>t. ct_id t = c_componentTypeId c) (componentTypes d)))))
              (left_join (map source_ref (filter (\<lambda>w. sw_id w = c_sourceWebsiteId c) (sourceWebsites d)))))"

definition search_rows :: "db \<Rightarrow> string \<Rightarrow> search_filter \<Rightarrow> search_item list" where
  "search_rows d query f = concat (map (joined_rows d) (filter (search_where d query f) (components d)))"

definition generateSuggestions :: "db \<Rightarrow> string \<Rightarrow> string list" where
  "generateSuggestions d query =
     (if length query < 3 then []
      else take 5 (remdups (map c_name
             (filter (\<lambda>c. c_isActive c \<and> ilike (c_name c) (query @ ''%'')) (components d)))))"

text \<open>
  \<^verbatim>\<open>logSearch\<close> inserts one row; an insert the table rejects (a query over 500
  characters, a session id over 100, an id already taken) is caught and logged only.
\<close>

definition logSearch :: "db \<Rightarrow> search_env \<Rightarrow> string \<Rightarrow> search_filter \<Rightarrow> nat \<Rightarrow> int \<Rightarrow> string \<Rightarrow> db" where
  "logSearch d env query f resultsCount rt sessionId =
     (case (varchar 500 query, varchar 100 sessionId) of
        (Some q, Some sid) \<Rightarrow>
          if log_id env \<notin> set (map sl_id (searchLogs d))
          then d\<lparr>searchLogs := searchLogs d @
                 [\<lparr>sl_id = log_id env, sl_query = q, sl_filters = f,
                   sl_resultsCount = resultsCount, sl_sessionId = sid,
                   sl_responseTime = rt, sl_createdAt = log_createdAt env\<rparr>]\<rparr>
          else d
      | _ \<Rightarrow> d)"

text \<open>
  \<^verbatim>\<open>SearchService.search\<close>. The query has no \<^verbatim>\<open>ORDER BY\<close>: the rows come in
  scan order and \<^verbatim>\<open>LIMIT\<close> keeps the first \<open>limit\<close> of them. The limit is a
  natural number, as the route's schema makes it. The search log is written without
  being awaited; the state returned is the one after that write has landed.
\<close>

definition search ::
  "db \<Rightarrow> search_env \<Rightarrow> string \<Rightarrow> nat \<Rightarrow> search_filter \<Rightarrow> string option \<Rightarrow> (error + search_item search_result) \<times> db" where
  "search d env query limit f sessionId =
     (if \<not> reachable d then (Inl (AppError 500 ''Search failed''), d)
      else
        let rows = take limit (search_rows d query f);
            rt = now_end env - now_start env;
            d' = (case sessionId of
                    None \<Rightarrow> d
                  | Some sid \<Rightarrow> if sid = [] then d else logSearch d env query f (length rows) rt sid);
            sugg = generateSuggestions d query
        in (Inr \<lparr>results = rows, total = length rows, responseTime = rt, suggestions = Some sugg\<rparr>, d'))"

section \<open>ComponentService\<close>

record component_filter =
  cf_sourceSlug :: "string option"
  cf_typeSlug :: "string option"
  cf_tags :: "string list option"
  cf_isActive :: "bool option"

datatype sort_order = Newest | Popular | Name

text \<open>
  A JavaScript number as far as the pagination needs it: \<^verbatim>\<open>Math.ceil(total / limit)\<close>
  is infinite or not a number when the limit is 0.
\<close>

datatype js_number = Num nat | PosInfinity | NaN

definition ceil_div :: "nat \<Rightarrow> nat \<Rightarrow> js_number" where
  "ceil_div total_rows limit =
     (if limit = 0 then (if total_rows = 0 then NaN else PosInfinity)
      else Num ((total_rows + limit - 1) div limit))"

fun less_js :: "nat \<Rightarrow> js_number \<Rightarrow> bool" where
  "less_js p (Num n) = (p < n)"
| "less_js p PosInfinity = True"
| "less_js p NaN = False"

record pagination =
  pg_page :: nat
  pg_limit :: nat
  pg_total :: nat
  pg_totalPages :: js_number
  pg_hasNext :: bool
  pg_hasPrevious :: bool

record paginated_components =
  pc_components :: "component list"
  pc_pagination :: pagination

definition browse_where :: "db \<Rightarrow> component_filter \<Rightarrow> component \<Rightarrow> bool" where
  "browse_where d f c =
     ((case cf_isActive f of Some b \<Rightarrow> c_isActive c = b | None \<Rightarrow> c_isActive c = True)
      \<and> source_condition d (cf_sourceSlug f) c
      \<and> type_condition d (cf_typeSlug f) c)"

text \<open>
  \<^verbatim>\<open>ORDER BY\<close> on one column; rows with equal keys stay in scan order, and names
  compare character by character.
\<close>

fun order_by :: "sort_order \<Rightarrow> component list \<Rightarrow> component list" where
  "order_by Popular cs = sort_key (\<lambda>c. - c_viewCount c) cs"
| "order_by Name cs = sort_key c_name cs"
| "order_by Newest cs = sort_key (\<lambda>c. - c_createdAt c) cs"

text \<open>
  \<^verbatim>\<open>ComponentService.browse\<close>. It only reads. Page 0 makes the offset negative,
  which PostgreSQL rejects; the error is caught and rethrown as a 500.
\<close>

definition browse ::
  "db \<Rightarrow> nat \<Rightarrow> nat \<Rightarrow> component_filter \<Rightarrow> sort_order \<Rightarrow> error + paginated_components" where
  "browse d page limit f sort_by =
     (let matching = filter (browse_where d f) (components d);
          total_rows = length matching;
          totalPages = ceil_div total_rows limit;
          offset = (int page - 1) * int limit
      in if \<not> reachable d then Inl (AppError 500 ''Failed to browse components'')
         else if offset < 0 then Inl (AppError 500 ''Failed to browse components'')
         else Inr \<lparr>pc_components = take limit (drop (nat offset) (order_by sort_by matching)),
                   pc_pagination = \<lparr>pg_page = page, pg_limit = limit, pg_total = total_rows,
                     pg_totalPages = totalPages, pg_hasNext = less_js page totalPages,
                     pg_hasPrevious = (page > 1)\<rparr>\<rparr>)"

text \<open>
  \<^verbatim>\<open>NewComponent\<close>: the columns with a default may be left out of an insert.
\<close>

record new_component =
  nc_id :: "uuid option"
  nc_sourceWebsiteId :: uuid
  nc_componentTypeId :: uuid
  nc_name :: string
  nc_slug :: string
  nc_description :: "string option"
  nc_tags :: "string list option"
  nc_contentHash :: string
  nc_isActive :: "bool option"
  nc_viewCount :: "int option"
  nc_createdAt :: "timestamp option"
  nc_updatedAt :: "timestamp option"

text \<open>What the database supplies for a default: a random uuid and the current time.\<close>

record insert_env =
  random_uuid :: uuid
  db_now :: timestamp

definition with_defaults :: "insert_env \<Rightarrow> new_component \<Rightarrow> component" where
  "with_defaults env data =
     \<lparr>c_id = (case nc_id data of Some i \<Rightarrow> i | None \<Rightarrow> random_uuid env),
      c_sourceWebsiteId = nc_sourceWebsiteId data,
      c_componentTypeId = nc_componentTypeId data,
      c_name = nc_name data,
      c_slug = nc_slug data,
      c_description = nc_description data,
      c_tags = (case nc_tags data of Some ts \<Rightarrow> ts | None \<Rightarrow> []),
      c_contentHash = nc_contentHash data,
      c_isActive = (case nc_isActive data of Some b \<Rightarrow> b | None \<Rightarrow> True),
      c_viewCount = (case nc_viewCount data of Some n \<Rightarrow> n | None \<Rightarrow> 0),
      c_createdAt = (case nc_createdAt data of Some t \<Rightarrow> t | None \<Rightarrow> db_now env),
      c_updatedAt = (case nc_updatedAt data of Some t \<Rightarrow> t | None \<Rightarrow> db_now env)\<rparr>"

text \<open>
  The constraints the schema puts on a row of the \<^verbatim>\<open>components\<close> table, the
  primary key apart: the two foreign keys and the lengths of the \<^verbatim>\<open>varchar\<close>
  columns. The result is the row as stored, or \<open>None\<close> when the row is rejected. The
  index on \<^verbatim>\<open>(source_website_id, slug)\<close> is declared with \<^verbatim>\<open>index\<close>, not
  \<^verbatim>\<open>uniqueIndex\<close>: it constrains nothing.
\<close>

definition components_constraints :: "db \<Rightarrow> component \<Rightarrow> component option" where
  "components_constraints d row =
     (case (varchar 200 (c_name row), varchar 200 (c_slug row), varchar 64 (c_contentHash row)) of
        (Some n, Some s, Some h) \<Rightarrow>
          if c_sourceWebsiteId row \<in> set (map sw_id (sourceWebsites d))
             \<and> c_componentTypeId row \<in> set (map ct_id (componentTypes d))
          then Some (row\<lparr>c_name := n, c_slug := s, c_contentHash := h\<rparr>)
          else None
      | _ \<Rightarrow> None)"

text \<open>
  \<^verbatim>\<open>ComponentService.create\<close>: one plain \<^verbatim>\<open>INSERT ... RETURNING\<close>. The id
  must not be taken (the primary key); any rejection is rethrown as a 500.
\<close>

definition create :: "db \<Rightarrow> insert_env \<Rightarrow> new_component \<Rightarrow> (error + component) \<times> db" where
  "create d env data =
     (if \<not> reachable d then (Inl (AppError 500 ''Failed to create component''), d)
      else if c_id (with_defaults env data) \<in> set (map c_id (components d))
      then (Inl (AppError 500 ''Failed to create component''), d)
      else (case components_constraints d (with_defaults env data) of
              Some row \<Rightarrow> (Inr row, d\<lparr>components := components d @ [row]\<rparr>)
            | None \<Rightarrow> (Inl (AppError 500 ''Failed to create component''), d)))"

text \<open>\<^verbatim>\<open>ComponentService.delete\<close>: a hard delete by id; true whatever it removed.\<close>

definition delete :: "db \<Rightarrow> uuid \<Rightarrow> (error + bool) \<times> db" where
  "delete d i =
     (if reachable d
      then (Inr True, d\<lparr>components := filter (\<lambda>c. c_id c \<noteq> i) (components d)\<rparr>)
      else (Inl (AppError 500 ''Failed to delete component''), d))"

text \<open>\<^verbatim>\<open>ComponentService.existsByHash\<close>: a count, compared with 0.\<close>

definition existsByHash :: "db \<Rightarrow> string \<Rightarrow> uuid \<Rightarrow> error + bool" where
  "existsByHash d contentHash sourceWebsiteId =
     (if reachable d
      then Inr (length (filter (\<lambda>c. c_contentHash c = contentHash
                                    \<and> c_sourceWebsiteId c = sourceWebsiteId) (components d)) > 0)
      else Inl (AppError 500 ''Failed to check component existence''))"

section \<open>The crawl router\<close>

text \<open>\<^verbatim>\<open>SourceWebsiteService.getBySlug\<close>.\<close>

definition getBySlug :: "db \<Rightarrow> string \<Rightarrow> error + source_website option" where
  "getBySlug d s =
     (if reachable d then Inr (find (\<lambda>w. sw_slug w = s) (sourceWebsites d))
      else Inl (AppError 500 ''Failed to fetch source website''))"

text \<open>What the handler draws from outside: \<^verbatim>\<open>uuidv4()\<close> and the time of the insert.\<close>

record trigger_env =
  uuidv4 :: uuid
  insert_time :: timestamp

text \<open>
  The row an insert of \<^verbatim>\<open>{id, sourceWebsiteId, status: 'pending'}\<close> stores: the
  other columns take their defaults.
\<close>

definition newJob :: "trigger_env \<Rightarrow> uuid \<Rightarrow> crawl_job" where
  "newJob env sourceId =
     \<lparr>cj_id = uuidv4 env, cj_sourceWebsiteId = sourceId, cj_status = Pending,
      cj_startedAt = None, cj_completedAt = None,
      cj_componentsFound = 0, cj_componentsUpdated = 0, cj_componentsAdded = 0,
      cj_componentsRemoved = 0, cj_errorMessage = None, cj_createdAt = insert_time env\<rparr>"

definition runningJob :: "db \<Rightarrow> uuid \<Rightarrow> crawl_job option" where
  "runningJob d sourceId =
     find (\<lambda>j. cj_sourceWebsiteId j = sourceId \<and> cj_status j = Running) (crawlJobs d)"

text \<open>
  The handler of \<^verbatim>\<open>POST /api/crawl/trigger\<close>, after the api key and the body have
  been checked: the source by its slug (404 when there is none), the running-job check
  unless \<open>force\<close>, then the insert. An id that is already taken violates the primary
  key; that error goes to \<^verbatim>\<open>next\<close> as the driver threw it. Queueing the job is a
  \<^verbatim>\<open>TODO\<close> in the source: nothing runs the job after the insert.
\<close>

definition triggerCrawl :: "db \<Rightarrow> trigger_env \<Rightarrow> string \<Rightarrow> bool \<Rightarrow> (error + crawl_job) \<times> db" where
  "triggerCrawl d env sourceSlug force =
     (case getBySlug d sourceSlug of
        Inl e \<Rightarrow> (Inl e, d)
      | Inr None \<Rightarrow>
          (Inl (AppError 404 (''Source website '' @ [CHR 0x27] @ sourceSlug @ [CHR 0x27] @ '' not found'')), d)
      | Inr (Some source) \<Rightarrow>
          if \<not> force \<and> runningJob d (sw_id source) \<noteq> None
          then (Inl (AppError 409 ''Crawl already in progress for this source''), d)
          else if uuidv4 env \<in> set (map cj_id (crawlJobs d)) then (Inl DatabaseError, d)
          else (Inr (newJob env (sw_id source)),
                d\<lparr>crawlJobs := crawlJobs d @ [newJob env (sw_id source)]\<rparr>))"

section \<open>The search route and its validation\<close>

text \<open>
  The query string of a request as express hands it over. \<^verbatim>\<open>z.coerce.number()\<close>
  applies \<^verbatim>\<open>Number(...)\<close> to the limit parameter; \<open>coerced\<close> is what that gave.
\<close>

datatype coerced = IntValue int | NonInteger | NotANumber

record raw_search_query =
  rq_q :: "string option"
  rq_source :: "string option"
  rq_type :: "string option"
  rq_limit :: "coerced option"

record search_query =
  sq_q :: string
  sq_source :: "string option"
  sq_type :: "string option"
  sq_limit :: nat

text \<open>\<^verbatim>\<open>z.string().min(1).max(100).optional()\<close>, the schema of both filters.\<close>

definition filterSchema :: "string option \<Rightarrow> bool" where
  "filterSchema v = (case v of None \<Rightarrow> True | Some s \<Rightarrow> 1 \<le> length s \<and> length s \<le> 100)"

text \<open>\<^verbatim>\<open>z.coerce.number().int().min(1).max(100).default(20)\<close>.\<close>

definition limitSchema :: "coerced option \<Rightarrow> nat option" where
  "limitSchema v =
     (case v of
        None \<Rightarrow> Some 20
      | Some (IntValue n) \<Rightarrow> if 1 \<le> n \<and> n \<le> 100 then Some (nat n) else None
      | Some _ \<Rightarrow> None)"

text \<open>
  \<^verbatim>\<open>searchQuerySchema\<close>: \<^verbatim>\<open>q\<close> is \<^verbatim>\<open>z.string().min(2).max(500)\<close> and
  required. \<open>None\<close> is a failed parse.
\<close>

definition searchQuerySchema :: "raw_search_query \<Rightarrow> search_query option" where
  "searchQuerySchema raw =
     (case rq_q raw of
        None \<Rightarrow> None
      | Some q \<Rightarrow>
          if 2 \<le> length q \<and> length q \<le> 500 \<and> filterSchema (rq_source raw) \<and> filterSchema (rq_type raw)
          then (case limitSchema (rq_limit raw) of
                  None \<Rightarrow> None
                | Some l \<Rightarrow> Some \<lparr>sq_q = q, sq_source = rq_source raw, sq_type = rq_type raw, sq_limit = l\<rparr>)
          else None)"

text \<open>
  Modelled from the spec: \<^verbatim>\<open>validateQuery\<close> of
  \<^verbatim>\<open>middleware/validation.middleware\<close>, which is not among the sources. Section 7 of
  the specification makes a query that fails validation a client error, and the contract
  test of the search route expects status 400 for it: the middleware parses the query
  with the schema, passes a failed parse to \<^verbatim>\<open>next\<close> as a \<^verbatim>\<open>ZodError\<close> without
  running the handler, and otherwise hands the parsed values to the handler.
\<close>

definition validateQuery :: "('raw \<Rightarrow> 'parsed option) \<Rightarrow> 'raw \<Rightarrow> error + 'parsed" where
  "validateQuery schema raw = (case schema raw of None \<Rightarrow> Inl ZodError | Some parsed \<Rightarrow> Inr parsed)"

text \<open>
  \<^verbatim>\<open>GET /api/search\<close>: validation, then the handler, which takes the session id
  from the \<^verbatim>\<open>x-session-id\<close> header or draws a fresh one and calls the service. (The
  cache middleware between the two only sets response headers.)
\<close>

definition searchRoute ::
  "db \<Rightarrow> search_env \<Rightarrow> string option \<Rightarrow> uuid \<Rightarrow> raw_search_query \<Rightarrow> (error + search_item search_result) \<times> db" where
  "searchRoute d env session_header fresh_uuid raw =
     (case validateQuery searchQuerySchema raw of
        Inl e \<Rightarrow> (Inl e, d)
      | Inr query \<Rightarrow>
          let sessionId = (case session_header of
                             None \<Rightarrow> fresh_uuid
                           | Some h \<Rightarrow> if h = [] then fresh_uuid else h)
          in search d env (sq_q query) (sq_limit query)
               \<lparr>sf_source = sq_source query, sf_type = sq_type query\<rparr> (Some sessionId))"

section \<open>The Fuse.js index of SearchService\<close>

record index_entry =
  ie_id :: uuid
  ie_name :: string
  ie_description :: "string option"
  ie_tags :: "string list"
  ie_slug :: string

text \<open>
  The two private fields of the service. \<open>fuseIndex\<close> holds the collection the
  \<^verbatim>\<open>Fuse\<close> object was built from. Fuse.js itself is a library: its search is a
  parameter \<open>fuse\<close> of the model, from a collection, a query and a limit to the items
  found, best first.
\<close>

record search_service =
  fuseIndex :: "index_entry list option"
  lastIndexUpdate :: "timestamp option"

type_synonym fuse_search = "index_entry list \<Rightarrow> string \<Rightarrow> nat \<Rightarrow> index_entry list"

definition indexUpdateInterval :: int where
  "indexUpdateInterval = 5 * 60 * 1000"

definition index_entry_of :: "component \<Rightarrow> index_entry" where
  "index_entry_of c =
     \<lparr>ie_id = c_id c, ie_name = c_name c, ie_description = c_description c,
      ie_tags = c_tags c, ie_slug = c_slug c\<rparr>"

definition allComponents :: "db \<Rightarrow> index_entry list" where
  "allComponents d = map index_entry_of (filter c_isActive (components d))"

text \<open>
  \<^verbatim>\<open>buildSearchIndex\<close>: the select, then both fields are assigned, with no
  \<^verbatim>\<open>await\<close> between the two assignments. A failed select leaves the fields as
  they were.
\<close>

definition buildSearchIndex :: "db \<Rightarrow> timestamp \<Rightarrow> search_service \<Rightarrow> (error + unit) \<times> search_service" where
  "buildSearchIndex d now svc =
     (if reachable d
      then (Inr (), svc\<lparr>fuseIndex := Some (allComponents d), lastIndexUpdate := Some now\<rparr>)
      else (Inl (AppError 500 ''Failed to build search index''), svc))"

text \<open>The readings of the clock in one \<^verbatim>\<open>clientSearch\<close>, in the order they are taken.\<close>

record client_env =
  ce_start :: timestamp
  ce_check :: timestamp
  ce_built :: timestamp
  ce_end :: timestamp

text \<open>The test in front of the rebuild: no index yet, or one older than the interval.\<close>

definition needs_rebuild :: "search_service \<Rightarrow> timestamp \<Rightarrow> bool" where
  "needs_rebuild svc now =
     (case (fuseIndex svc, lastIndexUpdate svc) of
        (Some _, Some t) \<Rightarrow> now - t > indexUpdateInterval
      | _ \<Rightarrow> True)"

text \<open>The rest of \<^verbatim>\<open>clientSearch\<close>, from the second test of \<^verbatim>\<open>this.fuseIndex\<close> on.\<close>

definition answer :: "fuse_search \<Rightarrow> search_service \<Rightarrow> client_env \<Rightarrow> string \<Rightarrow> nat \<Rightarrow> error + index_entry search_result" where
  "answer fuse svc env query limit =
     (case fuseIndex svc of
        None \<Rightarrow> Inl (AppError 500 ''Client search failed'')
      | Some collection \<Rightarrow>
          let searchResults = fuse collection query limit
          in Inr \<lparr>results = searchResults, total = length searchResults,
                   responseTime = ce_end env - ce_start env, suggestions = None\<rparr>)"

text \<open>
  \<^verbatim>\<open>clientSearch\<close> in the two pieces the \<^verbatim>\<open>await\<close> cuts it into. The first
  piece runs when the call is made: it either answers at once, from the index as it is,
  or starts \<^verbatim>\<open>buildSearchIndex\<close> and suspends (\<open>None\<close>). The second piece runs when
  the select of the rebuild has come back.
\<close>

definition clientSearch_start ::
  "fuse_search \<Rightarrow> search_service \<Rightarrow> client_env \<Rightarrow> string \<Rightarrow> nat \<Rightarrow> (error + index_entry search_result) option" where
  "clientSearch_start fuse svc env query limit =
     (if needs_rebuild svc (ce_check env) then None else Some (answer fuse svc env query limit))"

definition clientSearch_resume ::
  "fuse_search \<Rightarrow> db \<Rightarrow> search_service \<Rightarrow> client_env \<Rightarrow> string \<Rightarrow> nat \<Rightarrow> (error + index_entry search_result) \<times> search_service" where
  "clientSearch_resume fuse d svc env query limit =
     (case buildSearchIndex d (ce_built env) svc of
        (Inl e, svc') \<Rightarrow> (Inl (AppError 500 ''Client search failed''), svc')
      | (Inr u, svc') \<Rightarrow> (answer fuse svc' env query limit, svc'))"

text \<open>A call of \<^verbatim>\<open>clientSearch\<close> with nothing else running in between.\<close>

definition clientSearch ::
  "fuse_search \<Rightarrow> db \<Rightarrow> search_service \<Rightarrow> client_env \<Rightarrow> string \<Rightarrow> nat \<Rightarrow> (error + index_entry search_result) \<times> search_service" where
  "clientSearch fuse d svc env query limit =
     (case clientSearch_start fuse svc env query limit of
        Some r \<Rightarrow> (r, svc)
      | None \<Rightarrow> clientSearch_resume fuse d svc env query limit)"

text \<open>
  Several calls at once. Node runs one piece of code at a time and switches between calls
  only at an \<^verbatim>\<open>await\<close>, so a run is a sequence of three kinds of events: a call
  arrives and runs up to its \<^verbatim>\<open>await\<close>, or answers at once; the select of a
  suspended call returns the rows of the database as it is then, and
  \<^verbatim>\<open>buildSearchIndex\<close> assigns the two fields; a call whose index is built runs from
  the \<^verbatim>\<open>await\<close> to its return. Suspended calls are named by their position; an event
  that names no such call changes nothing.
\<close>

record pending_call =
  call_built :: bool
  call_env :: client_env
  call_query :: string
  call_limit :: nat

record client_world =
  cw_service :: search_service
  cw_suspended :: "pending_call list"
  cw_answered :: "(error + index_entry search_result) list"

datatype client_event =
    Arrive client_env string nat
  | SelectReturns nat db
  | Continue nat

fun client_step :: "fuse_search \<Rightarrow> client_world \<Rightarrow> client_event \<Rightarrow> client_world" where
  "client_step fuse w (Arrive env query limit) =
     (case clientSearch_start fuse (cw_service w) env query limit of
        Some r \<Rightarrow> w\<lparr>cw_answered := cw_answered w @ [r]\<rparr>
      | None \<Rightarrow> w\<lparr>cw_suspended := cw_suspended w @
                     [\<lparr>call_built = False, call_env = env, call_query = query, call_limit = limit\<rparr>]\<rparr>)"
| "client_step fuse w (SelectReturns k d) =
     (if k < length (cw_suspended w) \<and> \<not> call_built (cw_suspended w ! k)
      then (case buildSearchIndex d (ce_built (call_env (cw_suspended w ! k))) (cw_service w) of
              (Inl e, svc') \<Rightarrow>
                w\<lparr>cw_service := svc',
                  cw_suspended := take k (cw_suspended w) @ drop (Suc k) (cw_suspended w),
                  cw_answered := cw_answered w @ [Inl (AppError 500 ''Client search failed'')]\<rparr>
            | (Inr u, svc') \<Rightarrow>
                w\<lparr>cw_service := svc',
                  cw_suspended := (cw_suspended w)[k := (cw_suspended w ! k)\<lparr>call_built := True\<rparr>]\<rparr>)
      else w)"
| "client_step fuse w (Continue k) =
     (if k < length (cw_suspended w) \<and> call_built (cw_suspended w ! k)
      then w\<lparr>cw_suspended := take k (cw_suspended w) @ drop (Suc k) (cw_suspended w),
             cw_answered := cw_answered w @
               [answer fuse (cw_service w) (call_env (cw_suspended w ! k))
                  (call_query (cw_suspended w ! k)) (call_limit (cw_suspended w ! k))]\<rparr>
      else w)"

definition client_run :: "fuse_search \<Rightarrow> client_world \<Rightarrow> client_event list \<Rightarrow> client_world" where
  "client_run fuse w evs = foldl (client_step fuse) w evs"

definition start_world :: "search_service \<Rightarrow> client_world" where
  "start_world svc = \<lparr>cw_service = svc, cw_suspended = [], cw_answered = []\<rparr>"



section \<open>Example states\<close>

text \<open>One source, one component type, and a catalog of three components, one retired.\<close>

definition magic_ui :: source_website where
  "magic_ui = \<lparr>sw_id = ''src-1'', sw_name = ''Magic UI'', sw_slug = ''magic-ui'', sw_isActive = True\<rparr>"

definition button_type :: component_type where
  "button_type = \<lparr>ct_id = ''type-1'', ct_name = ''Button'', ct_slug = ''button''\<rparr>"

definition tagged_card :: component where
  "tagged_card = \<lparr>c_id = ''cmp-1'', c_sourceWebsiteId = ''src-1'', c_componentTypeId = ''type-1'',
      c_name = ''Card'', c_slug = ''card'', c_description = None, c_tags = [''button''],
      c_contentHash = ''h1'', c_isActive = True, c_viewCount = 0, c_createdAt = 100, c_updatedAt = 100\<rparr>"

definition named_button :: component where
  "named_button = \<lparr>c_id = ''cmp-2'', c_sourceWebsiteId = ''src-1'', c_componentTypeId = ''type-1'',
      c_name = ''Button'', c_slug = ''button'', c_description = Some ''A clickable control'',
      c_tags = [''ui''], c_contentHash = ''h2'', c_isActive = True, c_viewCount = 5,
      c_createdAt = 200, c_updatedAt = 200\<rparr>"

definition retired_button :: component where
  "retired_button = \<lparr>c_id = ''cmp-3'', c_sourceWebsiteId = ''src-1'', c_componentTypeId = ''type-1'',
      c_name = ''Old Button'', c_slug = ''old-button'', c_description = None, c_tags = [''button''],
      c_contentHash = ''h3'', c_isActive = False, c_viewCount = 9, c_createdAt = 50, c_updatedAt = 300\<rparr>"

definition db_catalog :: db where
  "db_catalog = \<lparr>reachable = True, sourceWebsites = [magic_ui], componentTypes = [button_type],
      components = [tagged_card, named_button, retired_button], crawlJobs = [], searchLogs = []\<rparr>"

definition env_search :: search_env where
  "env_search = \<lparr>now_start = 1000, now_end = 1002, log_id = ''log-1'', log_createdAt = 1002\<rparr>"

definition no_filter :: search_filter where
  "no_filter = \<lparr>sf_source = None, sf_type = None\<rparr>"

definition default_filter :: component_filter where
  "default_filter = \<lparr>cf_sourceSlug = None, cf_typeSlug = None, cf_tags = None, cf_isActive = None\<rparr>"

definition names_of :: "error + search_item search_result \<Rightarrow> string list" where
  "names_of res = (case res of Inl e \<Rightarrow> [] | Inr r \<Rightarrow> map (\<lambda>it. c_name (item_component it)) (results r))"

text \<open>Crawl jobs: a store with no job, and one where a job of the source is running.\<close>

definition stale_job :: crawl_job where
  "stale_job = \<lparr>cj_id = ''job-1'', cj_sourceWebsiteId = ''src-1'', cj_status = Running,
      cj_startedAt = Some 1000, cj_completedAt = None,
      cj_componentsFound = 0, cj_componentsUpdated = 0, cj_componentsAdded = 0,
      cj_componentsRemoved = 0, cj_errorMessage = None, cj_createdAt = 900\<rparr>"

definition db_idle :: db where
  "db_idle = \<lparr>reachable = True, sourceWebsites = [magic_ui], componentTypes = [],
      components = [], crawlJobs = [], searchLogs = []\<rparr>"

definition db_running :: db where
  "db_running = db_idle\<lparr>crawlJobs := [stale_job]\<rparr>"

definition env_job2 :: trigger_env where
  "env_job2 = \<lparr>uuidv4 = ''job-2'', insert_time = 2000\<rparr>"

text \<open>A catalog with no component yet, and one insert made twice.\<close>

definition db_fresh :: db where
  "db_fresh = db_catalog\<lparr>components := []\<rparr>"

definition new_button :: new_component where
  "new_button = \<lparr>nc_id = None, nc_sourceWebsiteId = ''src-1'', nc_componentTypeId = ''type-1'',
      nc_name = ''Button'', nc_slug = ''button'', nc_description = None, nc_tags = Some [''ui''],
      nc_contentHash = ''h2'', nc_isActive = None, nc_viewCount = None,
      nc_createdAt = None, nc_updatedAt = None\<rparr>"

definition env_first :: insert_env where
  "env_first = \<lparr>random_uuid = ''cmp-a'', db_now = 100\<rparr>"

definition env_second :: insert_env where
  "env_second = \<lparr>random_uuid = ''cmp-b'', db_now = 200\<rparr>"

text \<open>Three query strings for the search route: too long, too short, and a plain one.\<close>

definition long_query :: raw_search_query where
  "long_query = \<lparr>rq_q = Some (replicate 501 (CHR ''a'')), rq_source = None, rq_type = None, rq_limit = None\<rparr>"

definition short_query :: raw_search_query where
  "short_query = \<lparr>rq_q = Some ''a'', rq_source = None, rq_type = None, rq_limit = None\<rparr>"

definition button_query :: raw_search_query where
  "button_query = \<lparr>rq_q = Some ''button'', rq_source = None, rq_type = None, rq_limit = None\<rparr>"










section \<open>What the text condition selects\<close>

text \<open>
  For a plain query, \<^verbatim>\<open>ILIKE '%query%'\<close> is containment of the query in the text,
  letter case apart.
\<close>

lemma like_match_percent_only: "like_match ''%'' t"
  by (induction t) simp_all

lemma like_match_plain_prefix:
  "plain q \<Longrightarrow> like_match (q @ p) t = (\<exists>r. t = q @ r \<and> like_match p r)"
proof (induction q arbitrary: t)
  case Nil
  then show ?case by simp
next
  case (Cons c q)
  then have c: "c \<noteq> CHR ''%''" "c \<noteq> CHR ''_''" "c \<noteq> CHR 0x5C" and q: "plain q"
    by (simp_all add: plain_def)
  show ?case
  proof (cases t)
    case Nil
    then show ?thesis using c by simp
  next
    case (Cons x xs)
    then show ?thesis using c Cons.IH [OF q, of xs] by auto
  qed
qed

lemma like_match_percent:
  "like_match (CHR ''%'' # p) t = (\<exists>a r. t = a @ r \<and> like_match p r)"
proof (induction t)
  case Nil
  then show ?case by simp
next
  case (Cons x xs)
  have "like_match (CHR ''%'' # p) (x # xs) = (like_match p (x # xs) \<or> like_match (CHR ''%'' # p) xs)"
    by simp
  also have "\<dots> = (like_match p (x # xs) \<or> (\<exists>a r. xs = a @ r \<and> like_match p r))"
    by (simp only: Cons.IH)
  also have "\<dots> = (\<exists>a r. x # xs = a @ r \<and> like_match p r)"
  proof
    assume "like_match p (x # xs) \<or> (\<exists>a r. xs = a @ r \<and> like_match p r)"
    then show "\<exists>a r. x # xs = a @ r \<and> like_match p r"
    proof
      assume "like_match p (x # xs)"
      then have "x # xs = [] @ (x # xs) \<and> like_match p (x # xs)" by simp
      then show ?thesis by blast
    next
      assume "\<exists>a r. xs = a @ r \<and> like_match p r"
      then obtain a r where "xs = a @ r" "like_match p r" by blast
      then have "x # xs = (x # a) @ r \<and> like_match p r" by simp
      then show ?thesis by blast
    qed
  next
    assume "\<exists>a r. x # xs = a @ r \<and> like_match p r"
    then obtain a r where ar: "x # xs = a @ r" "like_match p r" by blast
    show "like_match p (x # xs) \<or> (\<exists>a r. xs = a @ r \<and> like_match p r)"
    proof (cases a)
      case Nil
      with ar show ?thesis by simp
    next
      case (Cons y ys)
      with ar have "xs = ys @ r" by simp
      with ar(2) show ?thesis by blast
    qed
  qed
  finally show ?case .
qed

lemma like_match_contains:
  assumes "plain q"
  shows "like_match (''%'' @ q @ ''%'') t = (\<exists>a b. t = a @ q @ b)"
proof -
  have "like_match (''%'' @ q @ ''%'') t = (\<exists>a r. t = a @ r \<and> like_match (q @ ''%'') r)"
    using like_match_percent [of "q @ ''%''" t] by simp
  also have "\<dots> = (\<exists>a r. t = a @ r \<and> (\<exists>b. r = q @ b))"
    by (simp add: like_match_plain_prefix [OF assms] like_match_percent_only del: like_match.simps)
  also have "\<dots> = (\<exists>a b. t = a @ q @ b)" by blast
  finally show ?thesis .
qed

lemma lower_char_not_special:
  "c \<noteq> CHR ''%'' \<and> c \<noteq> CHR ''_'' \<and> c \<noteq> CHR 0x5C \<Longrightarrow>
   lower_char c \<noteq> CHR ''%'' \<and> lower_char c \<noteq> CHR ''_'' \<and> lower_char c \<noteq> CHR 0x5C"
proof -
  assume a: "c \<noteq> CHR ''%'' \<and> c \<noteq> CHR ''_'' \<and> c \<noteq> CHR 0x5C"
  show ?thesis
  proof (cases "65 \<le> (of_char c :: nat) \<and> (of_char c :: nat) \<le> 90")
    case True
    then have "(of_char (lower_char c) :: nat) = of_char c + 32"
      by (simp add: lower_char_def Let_def)
    then have "97 \<le> (of_char (lower_char c) :: nat)" using True by simp
    then show ?thesis by auto
  next
    case False
    then have "lower_char c = c" by (auto simp: lower_char_def Let_def)
    then show ?thesis using a by simp
  qed
qed

lemma plain_lower: "plain q \<Longrightarrow> plain (map lower_char q)"
  by (induction q) (simp_all add: plain_def lower_char_not_special)

lemma ilike_contains:
  "plain q \<Longrightarrow> ilike t (''%'' @ q @ ''%'') = (\<exists>a b. map lower_char t = a @ map lower_char q @ b)"
  using like_match_contains [OF plain_lower, of q "map lower_char t"]
  by (simp add: ilike_def lower_char_def)

lemma searchConditions_plain:
  assumes "plain query"
  shows "searchConditions query c =
           ((\<exists>a b. map lower_char (c_name c) = a @ map lower_char query @ b)
          \<or> (\<exists>de a b. c_description c = Some de \<and> map lower_char de = a @ map lower_char query @ b)
          \<or> (\<exists>a b. map lower_char (tags_text (c_tags c)) = a @ map lower_char query @ b))"
proof (cases "c_description c")
  case None
  then show ?thesis
    by (simp add: searchConditions_def Let_def ilike_contains [OF assms, simplified])
next
  case (Some de)
  then show ?thesis
    by (simp add: searchConditions_def Let_def ilike_contains [OF assms, simplified])
qed

section \<open>The crawl trigger\<close>

text \<open>
  C1. A trigger without \<open>force\<close> for a source that exists: while some crawl job of
  that source has status \<open>running\<close>, the call fails with the 409 error and the store
  is left as it was, so no job row is added; while none has, and the fresh id is not taken,
  the call inserts one job for the source, in status \<open>pending\<close>, and returns it.
\<close>

theorem trigger_conflict_or_create:
  assumes "getBySlug d sourceSlug = Inr (Some source)"
  shows "((\<exists>j\<in>set (crawlJobs d). cj_sourceWebsiteId j = sw_id source \<and> cj_status j = Running) \<longrightarrow>
            triggerCrawl d env sourceSlug False
              = (Inl (AppError 409 ''Crawl already in progress for this source''), d)
            \<and> fst (errorHandler (AppError 409 ''Crawl already in progress for this source'')) = 409)
       \<and> (\<not> (\<exists>j\<in>set (crawlJobs d). cj_sourceWebsiteId j = sw_id source \<and> cj_status j = Running)
            \<and> uuidv4 env \<notin> set (map cj_id (crawlJobs d)) \<longrightarrow>
            (\<exists>job. triggerCrawl d env sourceSlug False = (Inr job, d\<lparr>crawlJobs := crawlJobs d @ [job]\<rparr>)
                 \<and> cj_id job = uuidv4 env \<and> cj_sourceWebsiteId job = sw_id source
                 \<and> cj_status job = Pending))"
proof -
  have r: "(runningJob d (sw_id source) \<noteq> None)
        = (\<exists>j\<in>set (crawlJobs d). cj_sourceWebsiteId j = sw_id source \<and> cj_status j = Running)"
    by (auto simp: runningJob_def find_None_iff)
  show ?thesis
    using assms r by (auto simp: triggerCrawl_def newJob_def)
qed

theorem trigger_conflict_or_create_witness:
  "triggerCrawl db_running env_job2 ''magic-ui'' False
     = (Inl (AppError 409 ''Crawl already in progress for this source''), db_running)
   \<and> (\<exists>job. triggerCrawl db_idle env_job2 ''magic-ui'' False = (Inr job, db_idle\<lparr>crawlJobs := crawlJobs db_idle @ [job]\<rparr>)
          \<and> cj_id job = ''job-2'' \<and> cj_status job = Pending)"
proof -
  have g1: "getBySlug db_running ''magic-ui'' = Inr (Some magic_ui)"
    by (simp add: getBySlug_def db_running_def db_idle_def magic_ui_def)
  have g2: "getBySlug db_idle ''magic-ui'' = Inr (Some magic_ui)"
    by (simp add: getBySlug_def db_idle_def magic_ui_def)
  have run: "\<exists>j\<in>set (crawlJobs db_running). cj_sourceWebsiteId j = sw_id magic_ui \<and> cj_status j = Running"
    by (simp add: db_running_def db_idle_def stale_job_def magic_ui_def)
  have idle: "\<not> (\<exists>j\<in>set (crawlJobs db_idle). cj_sourceWebsiteId j = sw_id magic_ui \<and> cj_status j = Running)
      \<and> uuidv4 env_job2 \<notin> set (map cj_id (crawlJobs db_idle))"
    by (simp add: db_idle_def)
  from trigger_conflict_or_create [OF g1, of env_job2] run
  have a: "triggerCrawl db_running env_job2 ''magic-ui'' False
     = (Inl (AppError 409 ''Crawl already in progress for this source''), db_running)"
    by blast
  from trigger_conflict_or_create [OF g2, of env_job2] idle
  have b: "\<exists>job. triggerCrawl db_idle env_job2 ''magic-ui'' False = (Inr job, db_idle\<lparr>crawlJobs := crawlJobs db_idle @ [job]\<rparr>)
          \<and> cj_id job = ''job-2'' \<and> cj_status job = Pending"
    by (auto simp: env_job2_def)
  from a b show ?thesis by blast
qed

text \<open>
  C2, as stated, fails: with \<open>force\<close> set and a job of the source running, the
  trigger inserts the new job and the old one is still \<open>running\<close> beside it.
\<close>

theorem force_leaves_running_job_counterexample:
  "map cj_status (crawlJobs (snd (triggerCrawl db_running env_job2 ''magic-ui'' True))) = [Running, Pending]
   \<and> map cj_sourceWebsiteId (crawlJobs (snd (triggerCrawl db_running env_job2 ''magic-ui'' True))) = [''src-1'', ''src-1'']"
  by (simp add: triggerCrawl_def getBySlug_def db_running_def db_idle_def magic_ui_def stale_job_def env_job2_def newJob_def)

text \<open>
  C2, amended. With \<open>force\<close> set the running-job check is skipped: for a source that
  exists and a fresh id that is not taken, the trigger appends the new job in status
  \<open>pending\<close> and changes no other row, so the jobs that were \<open>running\<close> are exactly
  the jobs that are \<open>running\<close> afterwards.
\<close>

theorem force_skips_running_check:
  assumes "getBySlug d sourceSlug = Inr (Some source)"
      and "uuidv4 env \<notin> set (map cj_id (crawlJobs d))"
  shows "\<exists>job. triggerCrawl d env sourceSlug True = (Inr job, d\<lparr>crawlJobs := crawlJobs d @ [job]\<rparr>)
           \<and> cj_id job = uuidv4 env \<and> cj_sourceWebsiteId job = sw_id source \<and> cj_status job = Pending
           \<and> filter (\<lambda>j. cj_status j = Running) (crawlJobs (snd (triggerCrawl d env sourceSlug True)))
               = filter (\<lambda>j. cj_status j = Running) (crawlJobs d)"
  using assms by (auto simp: triggerCrawl_def newJob_def)

theorem force_skips_running_check_witness:
  "\<exists>job. triggerCrawl db_running env_job2 ''magic-ui'' True = (Inr job, db_running\<lparr>crawlJobs := crawlJobs db_running @ [job]\<rparr>)
      \<and> cj_status job = Pending
      \<and> filter (\<lambda>j. cj_status j = Running) (crawlJobs (snd (triggerCrawl db_running env_job2 ''magic-ui'' True))) = [stale_job]"
proof -
  have g1: "getBySlug db_running ''magic-ui'' = Inr (Some magic_ui)"
    by (simp add: getBySlug_def db_running_def db_idle_def magic_ui_def)
  have f: "uuidv4 env_job2 \<notin> set (map cj_id (crawlJobs db_running))"
    by (simp add: db_running_def db_idle_def stale_job_def env_job2_def)
  have s: "filter (\<lambda>j. cj_status j = Running) (crawlJobs db_running) = [stale_job]"
    by (simp add: db_running_def db_idle_def stale_job_def)
  from force_skips_running_check [OF g1 f] s show ?thesis by auto
qed

section \<open>Search and browse\<close>

lemma left_join_nonempty: "left_join xs \<noteq> []"
  by (cases xs) (simp_all add: left_join_def)

lemma joined_rows_nonempty: "joined_rows d c \<noteq> []"
  by (simp add: joined_rows_def left_join_nonempty)

lemma joined_rows_component: "it \<in> set (joined_rows d c) \<Longrightarrow> item_component it = c"
  by (auto simp: joined_rows_def)

lemma length_concat_map_ge:
  "(\<And>x. x \<in> set xs \<Longrightarrow> g x \<noteq> []) \<Longrightarrow> length xs \<le> length (concat (map g xs))"
proof (induction xs)
  case Nil
  then show ?case by simp
next
  case (Cons x xs)
  have "g x \<noteq> []" using Cons.prems by simp
  then have "1 \<le> length (g x)" by (cases "g x") simp_all
  moreover have "length xs \<le> length (concat (map g xs))" using Cons by simp
  ultimately show ?case by simp
qed

lemma matching_le_search_rows:
  "length (filter (search_where d query f) (components d)) \<le> length (search_rows d query f)"
  unfolding search_rows_def by (rule length_concat_map_ge) (rule joined_rows_nonempty)

lemma search_results: "search d env query limit f sessionId = (Inr r, d') \<Longrightarrow>
   results r = take limit (search_rows d query f) \<and> total r = length (results r)"
  by (auto simp: search_def Let_def split: if_splits)

lemma search_components: "search d env query limit f sessionId = (res, d') \<Longrightarrow> components d' = components d"
  by (auto simp: search_def Let_def logSearch_def split: if_splits option.splits prod.splits)

lemma matching_catalog:
  "filter (search_where db_catalog ''button'' no_filter) (components db_catalog) = [tagged_card, named_button]"
  by code_simp

text \<open>
  C10. The \<open>total\<close> of a search result is the length of the list returned, which is at
  most the limit; when more components match than the limit allows, \<open>total\<close> is the
  limit, below the number of matching components.
\<close>

theorem search_total_is_page_length:
  assumes "search d env query limit f sessionId = (Inr r, d')"
  shows "total r = length (results r) \<and> length (results r) \<le> limit
       \<and> (limit < length (filter (search_where d query f) (components d)) \<longrightarrow>
            total r = limit \<and> total r < length (filter (search_where d query f) (components d)))"
proof -
  from search_results [OF assms]
  have r: "results r = take limit (search_rows d query f)" and t: "total r = length (results r)"
    by simp_all
  have le: "length (filter (search_where d query f) (components d)) \<le> length (search_rows d query f)"
    by (rule matching_le_search_rows)
  show ?thesis using r t le by auto
qed

theorem search_total_is_page_length_witness:
  "total (projr (fst (search db_catalog env_search ''button'' 1 no_filter None))) = 1
   \<and> length (filter (search_where db_catalog ''button'' no_filter) (components db_catalog)) = 2"
proof -
  obtain r d' where s: "search db_catalog env_search ''button'' 1 no_filter None = (Inr r, d')"
    by (simp add: search_def db_catalog_def)
  have m: "length (filter (search_where db_catalog ''button'' no_filter) (components db_catalog)) = 2"
    by (simp add: matching_catalog)
  from search_total_is_page_length [OF s] m have "total r = 1" by simp
  then show ?thesis using m s by simp
qed

lemma source_id_unknown: "s \<notin> set (map sw_slug (sourceWebsites d)) \<Longrightarrow> source_id_by_slug d s = None"
  by (auto simp: source_id_by_slug_def find_None_iff)

lemma type_id_unknown: "s \<notin> set (map ct_slug (componentTypes d)) \<Longrightarrow> type_id_by_slug d s = None"
  by (auto simp: type_id_by_slug_def find_None_iff)

lemma source_condition_unknown:
  "s \<notin> set (map sw_slug (sourceWebsites d)) \<Longrightarrow> source_condition d (Some s) = source_condition d None"
  by (rule ext) (simp add: source_condition_def source_id_unknown)

lemma type_condition_unknown:
  "s \<notin> set (map ct_slug (componentTypes d)) \<Longrightarrow> type_condition d (Some s) = type_condition d None"
  by (rule ext) (simp add: type_condition_def type_id_unknown)

lemma fst_search: "fst (search d env query limit f sessionId) =
   (if \<not> reachable d then Inl (AppError 500 ''Search failed'')
    else Inr \<lparr>results = take limit (search_rows d query f),
              total = length (take limit (search_rows d query f)),
              responseTime = now_end env - now_start env,
              suggestions = Some (generateSuggestions d query)\<rparr>)"
  by (simp add: search_def Let_def)

lemma search_where_unknown_source:
  "s \<notin> set (map sw_slug (sourceWebsites d)) \<Longrightarrow>
   search_where d query \<lparr>sf_source = Some s, sf_type = ty\<rparr>
     = (\<lambda>c. c_isActive c \<and> type_condition d ty c \<and> searchConditions query c)"
  by (rule ext) (simp add: search_where_def source_condition_unknown source_condition_def)

lemma search_where_unknown_type:
  "s \<notin> set (map ct_slug (componentTypes d)) \<Longrightarrow>
   search_where d query \<lparr>sf_source = so, sf_type = Some s\<rparr>
     = (\<lambda>c. c_isActive c \<and> source_condition d so c \<and> searchConditions query c)"
  by (rule ext) (simp add: search_where_def type_condition_unknown type_condition_def)

lemma search_where_no_source:
  "search_where d query \<lparr>sf_source = None, sf_type = ty\<rparr>
     = (\<lambda>c. c_isActive c \<and> type_condition d ty c \<and> searchConditions query c)"
  by (rule ext) (simp add: search_where_def source_condition_def)

lemma search_where_no_type:
  "search_where d query \<lparr>sf_source = so, sf_type = None\<rparr>
     = (\<lambda>c. c_isActive c \<and> source_condition d so c \<and> searchConditions query c)"
  by (rule ext) (simp add: search_where_def type_condition_def)

lemma browse_where_unknown_source:
  "s \<notin> set (map sw_slug (sourceWebsites d)) \<Longrightarrow>
   browse_where d (bf\<lparr>cf_sourceSlug := Some s\<rparr>)
     = (\<lambda>c. (case cf_isActive bf of Some b \<Rightarrow> c_isActive c = b | None \<Rightarrow> c_isActive c)
            \<and> type_condition d (cf_typeSlug bf) c)"
  by (rule ext) (simp add: browse_where_def source_condition_unknown source_condition_def split: option.splits)

lemma browse_where_unknown_type:
  "s \<notin> set (map ct_slug (componentTypes d)) \<Longrightarrow>
   browse_where d (bf\<lparr>cf_typeSlug := Some s\<rparr>)
     = (\<lambda>c. (case cf_isActive bf of Some b \<Rightarrow> c_isActive c = b | None \<Rightarrow> c_isActive c)
            \<and> source_condition d (cf_sourceSlug bf) c)"
  by (rule ext) (simp add: browse_where_def type_condition_unknown type_condition_def split: option.splits)

lemma browse_where_no_source:
  "browse_where d (bf\<lparr>cf_sourceSlug := None\<rparr>)
     = (\<lambda>c. (case cf_isActive bf of Some b \<Rightarrow> c_isActive c = b | None \<Rightarrow> c_isActive c)
            \<and> type_condition d (cf_typeSlug bf) c)"
  by (rule ext) (simp add: browse_where_def source_condition_def split: option.splits)

lemma browse_where_no_type:
  "browse_where d (bf\<lparr>cf_typeSlug := None\<rparr>)
     = (\<lambda>c. (case cf_isActive bf of Some b \<Rightarrow> c_isActive c = b | None \<Rightarrow> c_isActive c)
            \<and> source_condition d (cf_sourceSlug bf) c)"
  by (rule ext) (simp add: browse_where_def type_condition_def split: option.splits)

lemma browse_page:
  "reachable d \<Longrightarrow> 0 < page \<Longrightarrow>
   \<exists>p. browse d page limit f sort_by = Inr p
     \<and> pc_components p = take limit (drop ((page - 1) * limit) (order_by sort_by (filter (browse_where d f) (components d))))"
proof -
  assume r: "reachable d" and p: "0 < page"
  have o: "(int page - 1) * int limit = int ((page - 1) * limit)"
    using p by (simp add: of_nat_diff)
  have n: "\<not> (int page - 1) * int limit < 0"
    by (simp only: o of_nat_less_0_iff not_False_eq_True)
  have m: "nat ((int page - 1) * int limit) = (page - 1) * limit"
    by (simp only: o nat_int)
  show ?thesis
    using r n by (simp add: browse_def Let_def m)
qed

text \<open>
  C9. With the database reachable, a source filter whose slug no source has is dropped:
  search raises no error and returns the first \<open>limit\<close> rows of the query without the
  source condition, which is what it returns when no source filter is given; browse (from
  page 1 on) returns the page of the components selected without the source condition,
  again what it returns with no source filter. The same holds for a type filter whose slug
  no component type has.
\<close>

theorem unknown_filter_slug_is_dropped:
  assumes "reachable d"
  shows "(s \<notin> set (map sw_slug (sourceWebsites d)) \<longrightarrow>
           (\<exists>r. fst (search d env query limit \<lparr>sf_source = Some s, sf_type = ty\<rparr> sessionId) = Inr r
               \<and> results r = take limit (concat (map (joined_rows d)
                     (filter (\<lambda>c. c_isActive c \<and> type_condition d ty c \<and> searchConditions query c)
                        (components d))))
               \<and> fst (search d env query limit \<lparr>sf_source = None, sf_type = ty\<rparr> sessionId) = Inr r)
         \<and> (0 < page \<longrightarrow>
              (\<exists>p. browse d page blimit (bf\<lparr>cf_sourceSlug := Some s\<rparr>) sort_by = Inr p
                 \<and> pc_components p = take blimit (drop ((page - 1) * blimit) (order_by sort_by
                      (filter (\<lambda>c. (case cf_isActive bf of Some b \<Rightarrow> c_isActive c = b | None \<Rightarrow> c_isActive c)
                                    \<and> type_condition d (cf_typeSlug bf) c) (components d))))
                 \<and> browse d page blimit (bf\<lparr>cf_sourceSlug := None\<rparr>) sort_by = Inr p)))
       \<and> (s \<notin> set (map ct_slug (componentTypes d)) \<longrightarrow>
           (\<exists>r. fst (search d env query limit \<lparr>sf_source = so, sf_type = Some s\<rparr> sessionId) = Inr r
               \<and> results r = take limit (concat (map (joined_rows d)
                     (filter (\<lambda>c. c_isActive c \<and> source_condition d so c \<and> searchConditions query c)
                        (components d))))
               \<and> fst (search d env query limit \<lparr>sf_source = so, sf_type = None\<rparr> sessionId) = Inr r)
         \<and> (0 < page \<longrightarrow>
              (\<exists>p. browse d page blimit (bf\<lparr>cf_typeSlug := Some s\<rparr>) sort_by = Inr p
                 \<and> pc_components p = take blimit (drop ((page - 1) * blimit) (order_by sort_by
                      (filter (\<lambda>c. (case cf_isActive bf of Some b \<Rightarrow> c_isActive c = b | None \<Rightarrow> c_isActive c)
                                    \<and> source_condition d (cf_sourceSlug bf) c) (components d))))
                 \<and> browse d page blimit (bf\<lparr>cf_typeSlug := None\<rparr>) sort_by = Inr p)))"
proof (intro conjI impI)
  assume u: "s \<notin> set (map sw_slug (sourceWebsites d))"
  show "\<exists>r. fst (search d env query limit \<lparr>sf_source = Some s, sf_type = ty\<rparr> sessionId) = Inr r
               \<and> results r = take limit (concat (map (joined_rows d)
                     (filter (\<lambda>c. c_isActive c \<and> type_condition d ty c \<and> searchConditions query c)
                        (components d))))
               \<and> fst (search d env query limit \<lparr>sf_source = None, sf_type = ty\<rparr> sessionId) = Inr r"
    using assms
    by (simp add: fst_search search_rows_def search_where_unknown_source [OF u] search_where_no_source)
  assume p: "0 < page"
  from browse_page [OF assms p, of blimit "bf\<lparr>cf_sourceSlug := Some s\<rparr>" sort_by]
  obtain pg where pg: "browse d page blimit (bf\<lparr>cf_sourceSlug := Some s\<rparr>) sort_by = Inr pg"
    "pc_components pg = take blimit (drop ((page - 1) * blimit) (order_by sort_by
        (filter (browse_where d (bf\<lparr>cf_sourceSlug := Some s\<rparr>)) (components d))))"
    by blast
  have e: "browse d page blimit (bf\<lparr>cf_sourceSlug := None\<rparr>) sort_by
         = browse d page blimit (bf\<lparr>cf_sourceSlug := Some s\<rparr>) sort_by"
    by (simp add: browse_def browse_where_unknown_source [OF u] browse_where_no_source)
  show "\<exists>p. browse d page blimit (bf\<lparr>cf_sourceSlug := Some s\<rparr>) sort_by = Inr p
                 \<and> pc_components p = take blimit (drop ((page - 1) * blimit) (order_by sort_by
                      (filter (\<lambda>c. (case cf_isActive bf of Some b \<Rightarrow> c_isActive c = b | None \<Rightarrow> c_isActive c)
                                    \<and> type_condition d (cf_typeSlug bf) c) (components d))))
                 \<and> browse d page blimit (bf\<lparr>cf_sourceSlug := None\<rparr>) sort_by = Inr p"
    using pg e by (simp add: browse_where_unknown_source [OF u])
next
  assume u: "s \<notin> set (map ct_slug (componentTypes d))"
  show "\<exists>r. fst (search d env query limit \<lparr>sf_source = so, sf_type = Some s\<rparr> sessionId) = Inr r
               \<and> results r = take limit (concat (map (joined_rows d)
                     (filter (\<lambda>c. c_isActive c \<and> source_condition d so c \<and> searchConditions query c)
                        (components d))))
               \<and> fst (search d env query limit \<lparr>sf_source = so, sf_type = None\<rparr> sessionId) = Inr r"
    using assms
    by (simp add: fst_search search_rows_def search_where_unknown_type [OF u] search_where_no_type)
  assume p: "0 < page"
  from browse_page [OF assms p, of blimit "bf\<lparr>cf_typeSlug := Some s\<rparr>" sort_by]
  obtain pg where pg: "browse d page blimit (bf\<lparr>cf_typeSlug := Some s\<rparr>) sort_by = Inr pg"
    "pc_components pg = take blimit (drop ((page - 1) * blimit) (order_by sort_by
        (filter (browse_where d (bf\<lparr>cf_typeSlug := Some s\<rparr>)) (components d))))"
    by blast
  have e: "browse d page blimit (bf\<lparr>cf_typeSlug := None\<rparr>) sort_by
         = browse d page blimit (bf\<lparr>cf_typeSlug := Some s\<rparr>) sort_by"
    by (simp add: browse_def browse_where_unknown_type [OF u] browse_where_no_type)
  show "\<exists>p. browse d page blimit (bf\<lparr>cf_typeSlug := Some s\<rparr>) sort_by = Inr p
                 \<and> pc_components p = take blimit (drop ((page - 1) * blimit) (order_by sort_by
                      (filter (\<lambda>c. (case cf_isActive bf of Some b \<Rightarrow> c_isActive c = b | None \<Rightarrow> c_isActive c)
                                    \<and> source_condition d (cf_sourceSlug bf) c) (components d))))
                 \<and> browse d page blimit (bf\<lparr>cf_typeSlug := None\<rparr>) sort_by = Inr p"
    using pg e by (simp add: browse_where_unknown_type [OF u])
qed

theorem unknown_filter_slug_is_dropped_witness:
  "names_of (fst (search db_catalog env_search ''button'' 10 \<lparr>sf_source = Some ''no-such-source'', sf_type = None\<rparr> None))
     = [''Card'', ''Button'']
   \<and> fst (search db_catalog env_search ''button'' 10 \<lparr>sf_source = None, sf_type = None\<rparr> None)
     = fst (search db_catalog env_search ''button'' 10 \<lparr>sf_source = Some ''no-such-source'', sf_type = None\<rparr> None)
   \<and> map c_name (pc_components (projr (browse db_catalog 1 20 (default_filter\<lparr>cf_sourceSlug := Some ''no-such-source''\<rparr>) Newest)))
     = [''Button'', ''Card'']
   \<and> browse db_catalog 1 20 (default_filter\<lparr>cf_sourceSlug := None\<rparr>) Newest
     = browse db_catalog 1 20 (default_filter\<lparr>cf_sourceSlug := Some ''no-such-source''\<rparr>) Newest
   \<and> names_of (fst (search db_catalog env_search ''button'' 10 \<lparr>sf_source = None, sf_type = Some ''no-such-type''\<rparr> None))
     = [''Card'', ''Button'']
   \<and> map c_name (pc_components (projr (browse db_catalog 1 20 (default_filter\<lparr>cf_typeSlug := Some ''no-such-type''\<rparr>) Newest)))
     = [''Button'', ''Card'']"
proof -
  have up: "reachable db_catalog" by (simp add: db_catalog_def)
  have u1: "''no-such-source'' \<notin> set (map sw_slug (sourceWebsites db_catalog))"
    by (simp add: db_catalog_def magic_ui_def)
  have u2: "''no-such-type'' \<notin> set (map ct_slug (componentTypes db_catalog))"
    by (simp add: db_catalog_def button_type_def)
  have pg: "(0::nat) < 1" by simp
  have rows: "map (\<lambda>it. c_name (item_component it)) (take 10 (concat (map (joined_rows db_catalog)
                (filter (\<lambda>c. c_isActive c \<and> type_condition db_catalog None c \<and> searchConditions ''button'' c)
                   (components db_catalog))))) = [''Card'', ''Button'']"
    by code_simp
  have rows2: "map (\<lambda>it. c_name (item_component it)) (take 10 (concat (map (joined_rows db_catalog)
                (filter (\<lambda>c. c_isActive c \<and> source_condition db_catalog None c \<and> searchConditions ''button'' c)
                   (components db_catalog))))) = [''Card'', ''Button'']"
    by code_simp
  have page1: "map c_name (take 20 (drop ((1 - 1) * 20) (order_by Newest
                 (filter (\<lambda>c. (case cf_isActive default_filter of Some b \<Rightarrow> c_isActive c = b | None \<Rightarrow> c_isActive c)
                               \<and> type_condition db_catalog (cf_typeSlug default_filter) c) (components db_catalog)))))
               = [''Button'', ''Card'']"
    by code_simp
  have page2: "map c_name (take 20 (drop ((1 - 1) * 20) (order_by Newest
                 (filter (\<lambda>c. (case cf_isActive default_filter of Some b \<Rightarrow> c_isActive c = b | None \<Rightarrow> c_isActive c)
                               \<and> source_condition db_catalog (cf_sourceSlug default_filter) c) (components db_catalog)))))
               = [''Button'', ''Card'']"
    by code_simp
  note t1 = unknown_filter_slug_is_dropped
         [OF up, where s = "''no-such-source''" and env = env_search and query = "''button''"
            and limit = 10 and ty = None and so = None and sessionId = None and page = 1 and blimit = 20
            and bf = default_filter and sort_by = Newest]
  note t2 = unknown_filter_slug_is_dropped
         [OF up, where s = "''no-such-type''" and env = env_search and query = "''button''"
            and limit = 10 and ty = None and so = None and sessionId = None and page = 1 and blimit = 20
            and bf = default_filter and sort_by = Newest]
  from t1 u1 pg obtain r p where
    a: "fst (search db_catalog env_search ''button'' 10 \<lparr>sf_source = Some ''no-such-source'', sf_type = None\<rparr> None) = Inr r"
       "results r = take 10 (concat (map (joined_rows db_catalog)
                (filter (\<lambda>c. c_isActive c \<and> type_condition db_catalog None c \<and> searchConditions ''button'' c)
                   (components db_catalog))))"
       "fst (search db_catalog env_search ''button'' 10 \<lparr>sf_source = None, sf_type = None\<rparr> None) = Inr r"
    and b: "browse db_catalog 1 20 (default_filter\<lparr>cf_sourceSlug := Some ''no-such-source''\<rparr>) Newest = Inr p"
       "pc_components p = take 20 (drop ((1 - 1) * 20) (order_by Newest
                 (filter (\<lambda>c. (case cf_isActive default_filter of Some b \<Rightarrow> c_isActive c = b | None \<Rightarrow> c_isActive c)
                               \<and> type_condition db_catalog (cf_typeSlug default_filter) c) (components db_catalog))))"
       "browse db_catalog 1 20 (default_filter\<lparr>cf_sourceSlug := None\<rparr>) Newest = Inr p"
    by blast
  from t2 u2 pg obtain r' p' where
    c: "fst (search db_catalog env_search ''button'' 10 \<lparr>sf_source = None, sf_type = Some ''no-such-type''\<rparr> None) = Inr r'"
       "results r' = take 10 (concat (map (joined_rows db_catalog)
                (filter (\<lambda>c. c_isActive c \<and> source_condition db_catalog None c \<and> searchConditions ''button'' c)
                   (components db_catalog))))"
    and d: "browse db_catalog 1 20 (default_filter\<lparr>cf_typeSlug := Some ''no-such-type''\<rparr>) Newest = Inr p'"
       "pc_components p' = take 20 (drop ((1 - 1) * 20) (order_by Newest
                 (filter (\<lambda>c. (case cf_isActive default_filter of Some b \<Rightarrow> c_isActive c = b | None \<Rightarrow> c_isActive c)
                               \<and> source_condition db_catalog (cf_sourceSlug default_filter) c) (components db_catalog))))"
    by blast
  have 1: "names_of (Inr r) = [''Card'', ''Button'']"
    using rows by (simp add: names_of_def a(2) del: take_map)
  have 2: "map c_name (pc_components p) = [''Button'', ''Card'']"
    using page1 by (simp only: b(2))
  have 3: "names_of (Inr r') = [''Card'', ''Button'']"
    using rows2 by (simp add: names_of_def c(2))
  have 4: "map c_name (pc_components p') = [''Button'', ''Card'']"
    using page2 by (simp only: d(2))
  show ?thesis
    using 1 2 3 4 a(1) a(3) b(1) b(3) c(1) d(1) by simp
qed

lemma search_rows_active: "it \<in> set (search_rows d query f) \<Longrightarrow> c_isActive (item_component it)"
  by (auto simp: search_rows_def search_where_def dest: joined_rows_component)

lemma set_order_by: "set (order_by sort_by cs) = set cs"
  by (cases sort_by) simp_all

lemma browse_components_subset:
  "browse d page limit f sort_by = Inr p \<Longrightarrow> set (pc_components p) \<subseteq> set (filter (browse_where d f) (components d))"
proof -
  assume a: "browse d page limit f sort_by = Inr p"
  then have "pc_components p = take limit (drop (nat ((int page - 1) * int limit))
                (order_by sort_by (filter (browse_where d f) (components d))))"
    by (auto simp: browse_def Let_def split: if_splits)
  then have "set (pc_components p) \<subseteq> set (order_by sort_by (filter (browse_where d f) (components d)))"
    by (metis set_take_subset set_drop_subset subset_trans)
  then show ?thesis by (simp only: set_order_by)
qed

text \<open>
  C5. A component of the store with \<open>isActive = false\<close> is in no result of search and
  in no page of browse under the default filter (no \<open>isActive\<close> given), and its row is
  still in the store after the search. (Browse only reads.)
\<close>

theorem inactive_components_hidden_but_kept:
  assumes "c \<in> set (components d)" and "\<not> c_isActive c"
  shows "(search d env query limit f sessionId = (Inr r, d') \<longrightarrow>
            c \<notin> item_component ` set (results r) \<and> c \<in> set (components d'))
       \<and> (cf_isActive bf = None \<and> browse d page blimit bf sort_by = Inr p \<longrightarrow>
            c \<notin> set (pc_components p))"
proof (intro conjI impI)
  assume s: "search d env query limit f sessionId = (Inr r, d')"
  from search_results [OF s] have "set (results r) \<subseteq> set (search_rows d query f)"
    by (simp add: set_take_subset)
  then show "c \<notin> item_component ` set (results r)"
    using assms(2) search_rows_active by blast
  show "c \<in> set (components d')" using search_components [OF s] assms(1) by simp
next
  assume b: "cf_isActive bf = None \<and> browse d page blimit bf sort_by = Inr p"
  then have "set (pc_components p) \<subseteq> set (filter (browse_where d bf) (components d))"
    using browse_components_subset by blast
  then show "c \<notin> set (pc_components p)"
    using assms(2) b by (auto simp: browse_where_def)
qed

theorem inactive_components_hidden_but_kept_witness:
  "retired_button \<in> set (components db_catalog) \<and> \<not> c_isActive retired_button
   \<and> retired_button \<notin> item_component ` set (results (projr (fst (search db_catalog env_search ''button'' 10 no_filter (Some ''session-1'')))))
   \<and> retired_button \<in> set (components (snd (search db_catalog env_search ''button'' 10 no_filter (Some ''session-1''))))
   \<and> retired_button \<notin> set (pc_components (projr (browse db_catalog 1 20 default_filter Popular)))"
proof -
  have m: "retired_button \<in> set (components db_catalog)" by (simp add: db_catalog_def)
  have i: "\<not> c_isActive retired_button" by (simp add: retired_button_def)
  obtain r d' where s: "search db_catalog env_search ''button'' 10 no_filter (Some ''session-1'') = (Inr r, d')"
    by (cases "search db_catalog env_search ''button'' 10 no_filter (Some ''session-1'')")
       (auto simp: search_def db_catalog_def Let_def)
  obtain p where b: "browse db_catalog 1 20 default_filter Popular = Inr p"
    by (simp add: browse_def db_catalog_def Let_def)
  have n: "cf_isActive default_filter = None" by (simp add: default_filter_def)
  from inactive_components_hidden_but_kept
         [OF m i, where env = env_search and query = "''button''" and limit = 10 and f = no_filter
            and sessionId = "Some ''session-1''" and r = r and d' = d' and bf = default_filter
            and page = 1 and blimit = 20 and sort_by = Popular and p = p] s b n
  show ?thesis using m i by simp
qed

text \<open>
  C4, as stated, fails: for the query \<open>button\<close> the component that is only tagged
  \<open>button\<close> comes before the component named \<open>Button\<close>, which also has the higher
  view count; with limit 1 the named one is not returned at all.
\<close>

theorem search_ignores_relevance_counterexample:
  "names_of (fst (search db_catalog env_search ''button'' 10 no_filter None)) = [''Card'', ''Button'']
   \<and> names_of (fst (search db_catalog env_search ''button'' 1 no_filter None)) = [''Card'']
   \<and> c_tags tagged_card = [''button''] \<and> c_viewCount tagged_card < c_viewCount named_button"
  by code_simp

lemma filter_key_distinct:
  "distinct (map k xs) \<Longrightarrow> length (filter (\<lambda>x. k x = v) xs) \<le> 1"
proof (induction xs)
  case Nil
  then show ?case by simp
next
  case (Cons x xs)
  show ?case
  proof (cases "k x = v")
    case True
    then have "v \<notin> k ` set xs" using Cons.prems by auto
    then have "filter (\<lambda>x. k x = v) xs = []" by (auto simp: filter_empty_conv)
    then show ?thesis by simp
  next
    case False
    then show ?thesis using Cons by simp
  qed
qed

lemma left_join_single: "length xs \<le> 1 \<Longrightarrow> length (left_join xs) = 1"
  by (cases xs) (simp_all add: left_join_def)

lemma joined_rows_single:
  assumes "distinct (map sw_id (sourceWebsites d))" and "distinct (map ct_id (componentTypes d))"
  shows "map item_component (joined_rows d c) = [c]"
proof -
  let ?ws = "left_join (map source_ref (filter (\<lambda>w. sw_id w = c_sourceWebsiteId c) (sourceWebsites d)))"
  let ?ts = "left_join (map type_ref (filter (\<lambda>t. ct_id t = c_componentTypeId c) (componentTypes d)))"
  have "length ?ws = 1"
    using filter_key_distinct [OF assms(1), of "c_sourceWebsiteId c"]
    by (intro left_join_single) simp
  then obtain w where w: "?ws = [w]" by (cases ?ws) simp_all
  have "length ?ts = 1"
    using filter_key_distinct [OF assms(2), of "c_componentTypeId c"]
    by (intro left_join_single) simp
  then obtain t where t: "?ts = [t]" by (cases ?ts) simp_all
  show ?thesis unfolding joined_rows_def w t by simp
qed

lemma search_rows_components:
  assumes "distinct (map sw_id (sourceWebsites d))" and "distinct (map ct_id (componentTypes d))"
  shows "map item_component (search_rows d query f) = filter (search_where d query f) (components d)"
proof -
  have "map item_component (concat (map (joined_rows d) cs)) = cs" for cs
    by (induction cs) (simp_all add: joined_rows_single [OF assms])
  then show ?thesis by (simp add: search_rows_def)
qed

text \<open>
  C4, amended. With the ids of the sources and of the component types unique (they are
  primary keys), the components of a search result are the first \<open>limit\<close> components
  of the store, in the order of the store, that are active, pass the filters and contain
  the query in name, description or tags text: no relevance order is applied.
\<close>

theorem search_results_in_scan_order:
  assumes "distinct (map sw_id (sourceWebsites d))" and "distinct (map ct_id (componentTypes d))"
      and "search d env query limit f sessionId = (Inr r, d')"
  shows "map item_component (results r) = take limit (filter (search_where d query f) (components d))"
proof -
  have "map item_component (results r) = take limit (map item_component (search_rows d query f))"
    using search_results [OF assms(3)] by (simp add: take_map)
  then show ?thesis by (simp only: search_rows_components [OF assms(1,2)])
qed

theorem search_results_in_scan_order_witness:
  "map item_component (results (projr (fst (search db_catalog env_search ''button'' 10 no_filter None))))
     = [tagged_card, named_button]"
proof -
  have d1: "distinct (map sw_id (sourceWebsites db_catalog))" by (simp add: db_catalog_def)
  have d2: "distinct (map ct_id (componentTypes db_catalog))" by (simp add: db_catalog_def)
  obtain r d' where s: "search db_catalog env_search ''button'' 10 no_filter None = (Inr r, d')"
    by (simp add: search_def db_catalog_def)
  from search_results_in_scan_order [OF d1 d2 s] matching_catalog
  have "map item_component (results r) = [tagged_card, named_button]" by simp
  then show ?thesis using s by simp
qed

section \<open>Writes to the catalog\<close>

text \<open>
  C3 does not hold of the code. \<^verbatim>\<open>data-model.md\<close> lists
  \<^verbatim>\<open>UNIQUE (sourceWebsiteId, slug)\<close> for the components, but the schema declares that
  index with \<^verbatim>\<open>index(...)\<close> and no \<^verbatim>\<open>.unique()\<close>, and \<^verbatim>\<open>create\<close> is a plain
  insert: the same insert made twice succeeds twice and leaves two active rows for one
  pair of source and slug.
\<close>

theorem create_twice_same_source_slug:
  "map (\<lambda>c. (c_id c, c_sourceWebsiteId c, c_slug c, c_isActive c))
       (components (snd (create (snd (create db_fresh env_first new_button)) env_second new_button)))
     = [(''cmp-a'', ''src-1'', ''button'', True), (''cmp-b'', ''src-1'', ''button'', True)]"
  by code_simp

section \<open>Validation of the search query\<close>

text \<open>
  C6, as stated, fails in its last part: a query of 501 characters is rejected for its
  length.
\<close>

theorem long_query_rejected_counterexample:
  "searchRoute db_catalog env_search None ''session-1'' long_query = (Inl ZodError, db_catalog)"
  by (simp add: searchRoute_def validateQuery_def searchQuerySchema_def long_query_def)

text \<open>
  C6, amended. A request whose query is missing, shorter than 2 characters or longer than
  500 is answered with the validation error (status 400) and the store is left as it was:
  no search runs. A query of 2 to 500 characters, with the other parameters valid, is
  passed to the search service, which returns a result when the database is reachable.
\<close>

theorem search_route_query_length:
  "((case rq_q raw of None \<Rightarrow> True | Some q \<Rightarrow> length q < 2 \<or> 500 < length q) \<longrightarrow>
      searchRoute d env session_header fresh_uuid raw = (Inl ZodError, d)
      \<and> errorHandler ZodError = (400, ''Validation error''))
 \<and> (rq_q raw = Some q \<and> 2 \<le> length q \<and> length q \<le> 500
      \<and> filterSchema (rq_source raw) \<and> filterSchema (rq_type raw) \<and> limitSchema (rq_limit raw) = Some l \<longrightarrow>
      searchRoute d env session_header fresh_uuid raw
        = search d env q l \<lparr>sf_source = rq_source raw, sf_type = rq_type raw\<rparr>
            (Some (case session_header of
                     None \<Rightarrow> fresh_uuid
                   | Some h \<Rightarrow> if h = [] then fresh_uuid else h))
      \<and> (reachable d \<longrightarrow> (\<exists>r d'. searchRoute d env session_header fresh_uuid raw = (Inr r, d'))))"
proof (intro conjI impI)
  assume "case rq_q raw of None \<Rightarrow> True | Some q \<Rightarrow> length q < 2 \<or> 500 < length q"
  then have "searchQuerySchema raw = None"
    by (auto simp: searchQuerySchema_def split: option.splits)
  then show "searchRoute d env session_header fresh_uuid raw = (Inl ZodError, d)"
    by (simp add: searchRoute_def validateQuery_def)
next
  show "errorHandler ZodError = (400, ''Validation error'')" by simp
next
  assume a: "rq_q raw = Some q \<and> 2 \<le> length q \<and> length q \<le> 500
      \<and> filterSchema (rq_source raw) \<and> filterSchema (rq_type raw) \<and> limitSchema (rq_limit raw) = Some l"
  then have p: "searchQuerySchema raw
      = Some \<lparr>sq_q = q, sq_source = rq_source raw, sq_type = rq_type raw, sq_limit = l\<rparr>"
    by (simp add: searchQuerySchema_def)
  then show "searchRoute d env session_header fresh_uuid raw
        = search d env q l \<lparr>sf_source = rq_source raw, sf_type = rq_type raw\<rparr>
            (Some (case session_header of
                     None \<Rightarrow> fresh_uuid
                   | Some h \<Rightarrow> if h = [] then fresh_uuid else h))"
    by (simp add: searchRoute_def validateQuery_def Let_def)
  assume "reachable d"
  with p show "\<exists>r d'. searchRoute d env session_header fresh_uuid raw = (Inr r, d')"
    by (simp add: searchRoute_def validateQuery_def search_def Let_def)
qed

theorem search_route_query_length_witness:
  "searchRoute db_catalog env_search None ''session-1'' short_query = (Inl ZodError, db_catalog)
   \<and> searchRoute db_catalog env_search None ''session-1'' long_query = (Inl ZodError, db_catalog)
   \<and> names_of (fst (searchRoute db_catalog env_search None ''session-1'' button_query)) = [''Card'', ''Button'']"
proof -
  have s: "case rq_q short_query of None \<Rightarrow> True | Some q \<Rightarrow> length q < 2 \<or> 500 < length q"
    by (simp add: short_query_def)
  have l: "case rq_q long_query of None \<Rightarrow> True | Some q \<Rightarrow> length q < 2 \<or> 500 < length q"
    by (simp add: long_query_def)
  have b: "rq_q button_query = Some ''button'' \<and> 2 \<le> length ''button'' \<and> length ''button'' \<le> 500
      \<and> filterSchema (rq_source button_query) \<and> filterSchema (rq_type button_query)
      \<and> limitSchema (rq_limit button_query) = Some 20"
    by (simp add: button_query_def filterSchema_def limitSchema_def)
  have n: "names_of (fst (search db_catalog env_search ''button'' 20
                      \<lparr>sf_source = rq_source button_query, sf_type = rq_type button_query\<rparr>
                      (Some ''session-1'')))
             = [''Card'', ''Button'']"
    by code_simp
  from search_route_query_length
         [where raw = short_query and d = db_catalog and env = env_search
            and session_header = None and fresh_uuid = "''session-1''"] s
  have 1: "searchRoute db_catalog env_search None ''session-1'' short_query = (Inl ZodError, db_catalog)"
    by blast
  from search_route_query_length
         [where raw = long_query and d = db_catalog and env = env_search
            and session_header = None and fresh_uuid = "''session-1''"] l
  have 2: "searchRoute db_catalog env_search None ''session-1'' long_query = (Inl ZodError, db_catalog)"
    by blast
  from search_route_query_length
         [where raw = button_query and d = db_catalog and env = env_search
            and session_header = None and fresh_uuid = "''session-1''" and q = "''button''" and l = 20] b
  have "searchRoute db_catalog env_search None ''session-1'' button_query
               = search db_catalog env_search ''button'' 20
                   \<lparr>sf_source = rq_source button_query, sf_type = rq_type button_query\<rparr>
                   (Some ''session-1'')"
    by simp
  then have 3: "names_of (fst (searchRoute db_catalog env_search None ''session-1'' button_query)) = [''Card'', ''Button'']"
    using n by simp
  from 1 2 3 show ?thesis by blast
qed

section \<open>The search index\<close>









lemma clientSearch_as_events:
  "clientSearch fuse d svc env query limit = (r, svc') \<Longrightarrow>
   cw_answered (client_run fuse (start_world svc) [Arrive env query limit, SelectReturns 0 d, Continue 0]) = [r]
   \<and> cw_service (client_run fuse (start_world svc) [Arrive env query limit, SelectReturns 0 d, Continue 0]) = svc'"
  by (cases "needs_rebuild svc (ce_check env)"; cases "reachable d")
     (auto simp: clientSearch_def clientSearch_start_def clientSearch_resume_def buildSearchIndex_def
        client_run_def start_world_def)




end
